theory Spec2Isabelle
  imports Complex_Main
begin

section \<open>The sparse QR solve shim \<open>lsqr\<close> of cupy/sparse/linalg/solve.py\<close>

text \<open>
  The source is one function, \<open>lsqr(A, b)\<close>, which validates its arguments, picks a
  working element type, calls the cusolver routine \<open>scsrlsvqr\<close> or \<open>dcsrlsvqr\<close> and packs
  the answer into a tuple of ten slots. Everything numeric is done by collaborators
  (cupy, cupy.sparse, cusolver); they are the fields of the record \<open>runtime\<close> below, so that
  every theorem holds for whatever these collaborators compute. The model returns the
  list of collaborator calls made, in order, next to the result or the exception.
\<close>

subsection \<open>Exceptions\<close>

text \<open>
  \<open>RuntimeError\<close> and \<open>ValueError\<close> are raised by \<open>lsqr\<close> itself (lines 36 and 44) and carry
  the message of the source. \<open>TypeError\<close> is what \<open>len\<close> raises on an array without
  dimensions, \<open>AttributeError\<close> what \<open>None.char\<close> raises. \<open>ShapeMismatchError\<close> and
  \<open>ArrayTypeError\<close> are raised by the two helpers of \<open>cupy.linalg.util\<close>.
  \<open>CollaboratorError\<close> is a failure inside a collaborator (a cusolver status, a failed
  conversion); it passes through \<open>lsqr\<close> unchanged.
\<close>

datatype error =
    RuntimeError string
  | ValueError string
  | TypeError string
  | AttributeError string
  | ShapeMismatchError
  | ArrayTypeError
  | CollaboratorError int

subsection \<open>Element types and numpy's common type\<close>

text \<open>
  The numeric element types of numpy: boolean, the signed and unsigned integers of 8 to
  64 bits, the half, single, double and extended precision floating point types, and the
  complex types made of two single, double or extended precision components. \<open>dtype_char\<close>
  is numpy's one-letter type code, which the source compares with \<open>'f'\<close> and \<open>'d'\<close>.
\<close>

datatype dtype =
    NpBool | Int8 | UInt8 | Int16 | UInt16 | Int32 | UInt32 | Int64 | UInt64
  | Float16 | Float32 | Float64 | LongDouble
  | Complex64 | Complex128 | CLongDouble

fun dtype_char :: "dtype \<Rightarrow> char" where
  "dtype_char NpBool = CHR ''?''"
| "dtype_char Int8 = CHR ''b''"
| "dtype_char UInt8 = CHR ''B''"
| "dtype_char Int16 = CHR ''h''"
| "dtype_char UInt16 = CHR ''H''"
| "dtype_char Int32 = CHR ''i''"
| "dtype_char UInt32 = CHR ''I''"
| "dtype_char Int64 = CHR ''l''"
| "dtype_char UInt64 = CHR ''L''"
| "dtype_char Float16 = CHR ''e''"
| "dtype_char Float32 = CHR ''f''"
| "dtype_char Float64 = CHR ''d''"
| "dtype_char LongDouble = CHR ''g''"
| "dtype_char Complex64 = CHR ''F''"
| "dtype_char Complex128 = CHR ''D''"
| "dtype_char CLongDouble = CHR ''G''"

datatype kind = BoolKind | SignedKind | UnsignedKind | FloatKind | ComplexKind

fun kind_of :: "dtype \<Rightarrow> kind" where
  "kind_of NpBool = BoolKind"
| "kind_of Int8 = SignedKind"
| "kind_of Int16 = SignedKind"
| "kind_of Int32 = SignedKind"
| "kind_of Int64 = SignedKind"
| "kind_of UInt8 = UnsignedKind"
| "kind_of UInt16 = UnsignedKind"
| "kind_of UInt32 = UnsignedKind"
| "kind_of UInt64 = UnsignedKind"
| "kind_of Float16 = FloatKind"
| "kind_of Float32 = FloatKind"
| "kind_of Float64 = FloatKind"
| "kind_of LongDouble = FloatKind"
| "kind_of Complex64 = ComplexKind"
| "kind_of Complex128 = ComplexKind"
| "kind_of CLongDouble = ComplexKind"

text \<open>
  \<open>bits\<close> is the width of one number: of the whole element for a boolean, an integer or a
  floating point type, and of one of the two components for a complex type (32 for
  complex64, 64 for complex128). The extended precision types count as 128 bits.
\<close>

fun bits :: "dtype \<Rightarrow> nat" where
  "bits NpBool = 8"
| "bits Int8 = 8"
| "bits UInt8 = 8"
| "bits Int16 = 16"
| "bits UInt16 = 16"
| "bits Float16 = 16"
| "bits Int32 = 32"
| "bits UInt32 = 32"
| "bits Float32 = 32"
| "bits Complex64 = 32"
| "bits Int64 = 64"
| "bits UInt64 = 64"
| "bits Float64 = 64"
| "bits Complex128 = 64"
| "bits LongDouble = 128"
| "bits CLongDouble = 128"

text \<open>
  \<open>can_cast a t\<close> is numpy's \<open>can_cast(a, t)\<close> under the default rule (a cast that keeps
  every value): a boolean casts to everything; an integer to a wider integer of its own
  signedness; an unsigned integer to a strictly wider signed one; an integer to a
  floating point or complex type whose numbers are strictly wider or have at least
  double precision; a floating point type to a floating point or complex type whose
  numbers are at least as wide; a complex type to a complex type at least as wide; and
  nothing else.
\<close>

fun can_cast :: "dtype \<Rightarrow> dtype \<Rightarrow> bool" where
  "can_cast a t =
     (case (kind_of a, kind_of t) of
        (BoolKind, _) \<Rightarrow> True
      | (_, BoolKind) \<Rightarrow> False
      | (SignedKind, SignedKind) \<Rightarrow> bits a \<le> bits t
      | (SignedKind, UnsignedKind) \<Rightarrow> False
      | (UnsignedKind, UnsignedKind) \<Rightarrow> bits a \<le> bits t
      | (UnsignedKind, SignedKind) \<Rightarrow> bits a < bits t
      | (SignedKind, FloatKind) \<Rightarrow> bits a < bits t \<or> 64 \<le> bits t
      | (UnsignedKind, FloatKind) \<Rightarrow> bits a < bits t \<or> 64 \<le> bits t
      | (SignedKind, ComplexKind) \<Rightarrow> bits a < bits t \<or> 64 \<le> bits t
      | (UnsignedKind, ComplexKind) \<Rightarrow> bits a < bits t \<or> 64 \<le> bits t
      | (FloatKind, FloatKind) \<Rightarrow> bits a \<le> bits t
      | (FloatKind, ComplexKind) \<Rightarrow> bits a \<le> bits t
      | (FloatKind, _) \<Rightarrow> False
      | (ComplexKind, ComplexKind) \<Rightarrow> bits a \<le> bits t
      | (ComplexKind, _) \<Rightarrow> False)"

text \<open>
  numpy tries the types in this order (\<open>'?bBhHiIlLefdgFDG'\<close>, the codes of the element
  types above in the order of numpy's own list) and \<open>find_common_type(array_types, ())\<close>
  returns the first one that every given type casts to; a list of one type is returned
  as it is, and where no type fits the answer is \<open>None\<close>.
\<close>

definition test_types :: "dtype list" where
  "test_types = [NpBool, Int8, UInt8, Int16, UInt16, Int32, UInt32, Int64, UInt64,
                 Float16, Float32, Float64, LongDouble, Complex64, Complex128, CLongDouble]"

fun find_common_type :: "dtype list \<Rightarrow> dtype option" where
  "find_common_type [] = None"
| "find_common_type [a] = Some a"
| "find_common_type ds = find (\<lambda>t. list_all (\<lambda>x. can_cast x t) ds) test_types"

subsection \<open>Arrays, matrices and the collaborators\<close>

text \<open>
  An array is a cupy array (on the device) or a numpy array (on the host), with its
  element type, its shape and its elements. The type \<open>'v\<close> of the elements is left open:
  \<open>lsqr\<close> moves buffers and never computes on an element itself.
\<close>

datatype array_kind = CupyNdarray | NumpyNdarray

record 'v ndarray =
  nd_kind :: array_kind
  nd_dtype :: dtype
  nd_shape :: "nat list"
  nd_data :: "'v list"

text \<open>
  A matrix in compressed row storage: \<open>shape\<close>, \<open>dtype\<close>, \<open>nnz\<close>, the three buffers \<open>data\<close>,
  \<open>indptr\<close> and \<open>indices\<close>, and the cusparse descriptor \<open>_descr.descriptor\<close>.
\<close>

record 'v csr =
  csr_shape :: "nat \<times> nat"
  csr_dtype :: dtype
  csr_nnz :: nat
  csr_data :: "'v list"
  csr_indptr :: "nat list"
  csr_indices :: "nat list"
  csr_descr :: nat

text \<open>
  The argument \<open>A\<close> is a csr matrix already (\<open>sparse.isspmatrix_csr(A)\<close> holds) or something
  else that \<open>sparse.csr_matrix\<close> is asked to convert.
\<close>

datatype 'v matrix_arg = CsrArg "'v csr" | DenseArg "'v ndarray"

datatype variant = Scsrlsvqr | Dcsrlsvqr

text \<open>
  The twelve arguments of the native call, lines 63 to 66. A buffer address is
  represented by the buffer it points to; the output buffer \<open>x\<close>, which is not
  initialised, by its element type and its length.
\<close>

record 'v native_args =
  arg_handle :: nat
  arg_m :: nat
  arg_nnz :: nat
  arg_descr :: nat
  arg_data :: "'v list"
  arg_indptr :: "nat list"
  arg_indices :: "nat list"
  arg_b :: "'v list"
  arg_tol :: real
  arg_reorder :: int
  arg_x_dtype :: dtype
  arg_x_len :: nat

text \<open>
  The collaborators: the flag \<open>cuda.cusolver_enabled\<close>; \<open>sparse.csr_matrix\<close>, which may raise;
  \<open>device.get_cusolver_sp_handle\<close>; the native routine, which raises or writes the
  solution and the singularity flag; the conversion of one element from one element
  type to another (the work of \<open>astype\<close>); the product \<open>A.dot(x)\<close>; the difference of two
  arrays; \<open>cupy.linalg.norm\<close>.
\<close>

record 'v runtime =
  cusolver_enabled :: bool
  sparse_csr_matrix :: "'v ndarray \<Rightarrow> error + 'v csr"
  get_cusolver_sp_handle :: nat
  csrlsvqr :: "variant \<Rightarrow> 'v native_args \<Rightarrow> error + ('v list \<times> int)"
  cast_elem :: "dtype \<Rightarrow> dtype \<Rightarrow> 'v \<Rightarrow> 'v"
  csr_dot :: "'v csr \<Rightarrow> 'v ndarray \<Rightarrow> 'v ndarray"
  subtract :: "'v ndarray \<Rightarrow> 'v ndarray \<Rightarrow> 'v ndarray"
  linalg_norm :: "'v ndarray \<Rightarrow> 'v ndarray"

text \<open>The calls \<open>lsqr\<close> makes to the device runtime and to the native library, as a log.\<close>

datatype 'v event =
    CsrConversion
  | GetHandle
  | AllocDevice nat dtype
  | AllocHost
  | NativeCall variant "'v native_args"
  | Astype dtype
  | SparseDot
  | Subtract
  | Norm

fun native_calls :: "'v event list \<Rightarrow> (variant \<times> 'v native_args) list" where
  "native_calls [] = []"
| "native_calls (NativeCall v a # es) = (v, a) # native_calls es"
| "native_calls (_ # es) = native_calls es"

subsection \<open>The function\<close>

text \<open>Lines 38 and 39: \<open>A\<close> is converted unless it is a csr matrix already.\<close>

definition as_csr :: "'v runtime \<Rightarrow> 'v matrix_arg \<Rightarrow> 'v event list \<times> (error + 'v csr)" where
  "as_csr rt A =
     (case A of
        CsrArg M \<Rightarrow> ([], Inr M)
      | DenseArg D \<Rightarrow> ([CsrConversion], sparse_csr_matrix rt D))"

text \<open>
  Modelled from the spec: \<open>util._assert_nd_squareness\<close> is not among the sources. The spec
  says of it: A's two dimensions must be equal (square); otherwise fail with a
  shape-mismatch error.
\<close>

definition assert_nd_squareness :: "'v csr \<Rightarrow> error option" where
  "assert_nd_squareness M =
     (if fst (csr_shape M) = snd (csr_shape M) then None else Some ShapeMismatchError)"

text \<open>
  Modelled from the spec: \<open>util._assert_cupy_array\<close> is not among the sources. The spec
  describes the vector as a dense vector resident on the device, and the docstring of \<open>lsqr\<close>
  gives \<open>b\<close> the type \<open>cupy.ndarray\<close>: the helper raises unless its argument is a cupy
  array.
\<close>

definition assert_cupy_array :: "'v ndarray \<Rightarrow> error option" where
  "assert_cupy_array b = (if nd_kind b = CupyNdarray then None else Some ArrayTypeError)"

definition ndim :: "'v ndarray \<Rightarrow> nat" where
  "ndim a = length (nd_shape a)"

definition len :: "'v ndarray \<Rightarrow> error + nat" where
  "len a =
     (case nd_shape a of
        [] \<Rightarrow> Inl (TypeError ''len() of unsized object'')
      | n # _ \<Rightarrow> Inr n)"

text \<open>
  Line 43, \<open>b.ndim != 1 or len(b) != m\<close>: Python's \<open>or\<close> evaluates \<open>len(b)\<close> only when the
  first test is false.
\<close>

definition b_mismatch :: "'v ndarray \<Rightarrow> nat \<Rightarrow> error + bool" where
  "b_mismatch b m =
     (if ndim b \<noteq> 1 then Inr True
      else case len b of Inl e \<Rightarrow> Inl e | Inr n \<Rightarrow> Inr (n \<noteq> m))"

text \<open>
  Lines 47 to 50. The source keeps the type code; the model keeps the element type the
  code stands for. \<open>find_common_type\<close> of numpy returns \<open>None\<close> where there is no common
  type, and \<open>.char\<close> then raises.
\<close>

definition select_dtype :: "dtype \<Rightarrow> error + dtype" where
  "select_dtype adt =
     (if dtype_char adt = CHR ''f'' \<or> dtype_char adt = CHR ''d'' then Inr adt
      else case find_common_type [adt, Float32] of
             None \<Rightarrow> Inl (AttributeError ''NoneType object has no attribute char'')
           | Some t \<Rightarrow> Inr t)"

text \<open>\<open>x.astype(t)\<close>: the same array with every element converted to \<open>t\<close>.\<close>

definition astype :: "'v runtime \<Rightarrow> 'v ndarray \<Rightarrow> dtype \<Rightarrow> 'v ndarray" where
  "astype rt a t =
     a\<lparr>nd_dtype := t, nd_data := map (cast_elem rt (nd_dtype a) t) (nd_data a)\<rparr>"

text \<open>Lines 59 to 62.\<close>

definition select_variant :: "dtype \<Rightarrow> variant" where
  "select_variant dt = (if dtype_char dt = CHR ''f'' then Scsrlsvqr else Dcsrlsvqr)"

text \<open>Lines 52 to 58 and 63 to 66: the arguments of the native call.\<close>

definition native_arguments :: "'v runtime \<Rightarrow> 'v csr \<Rightarrow> 'v ndarray \<Rightarrow> nat \<Rightarrow> dtype \<Rightarrow> 'v native_args" where
  "native_arguments rt M b m dt =
     \<lparr>arg_handle = get_cusolver_sp_handle rt, arg_m = m, arg_nnz = csr_nnz M,
      arg_descr = csr_descr M, arg_data = csr_data M, arg_indptr = csr_indptr M,
      arg_indices = csr_indices M, arg_b = nd_data b, arg_tol = 1, arg_reorder = 1,
      arg_x_dtype = dt, arg_x_len = m\<rparr>"

text \<open>
  Lines 52 to 72, once the arguments are accepted and the element type \<open>dt\<close> is chosen.
  The singularity flag \<open>s\<close> that the native routine writes is not read again.
\<close>

definition dispatch ::
  "'v runtime \<Rightarrow> 'v event list \<Rightarrow> 'v csr \<Rightarrow> 'v ndarray \<Rightarrow> nat \<Rightarrow> dtype
     \<Rightarrow> 'v event list \<times> (error + 'v ndarray option list)" where
  "dispatch rt tr M b m dt =
     (let tr1 = tr @ [GetHandle, AllocDevice m dt, AllocHost];
          v = select_variant dt;
          args = native_arguments rt M b m dt;
          tr2 = tr1 @ [NativeCall v args]
      in case csrlsvqr rt v args of
           Inl e \<Rightarrow> (tr2, Inl e)
         | Inr (xs, s) \<Rightarrow>
             (let x = astype rt \<lparr>nd_kind = CupyNdarray, nd_dtype = dt, nd_shape = [m],
                                 nd_data = xs\<rparr> Float64;
                  r1norm = linalg_norm rt (subtract rt b (csr_dot rt M x));
                  xnorm = linalg_norm rt x
              in (tr2 @ [Astype Float64, SparseDot, Subtract, Norm, Norm],
                  Inr [Some x, None, None, Some r1norm, None, None, None, None,
                       Some xnorm, None])))"

text \<open>The whole function, lines 35 to 72.\<close>

definition lsqr ::
  "'v runtime \<Rightarrow> 'v matrix_arg \<Rightarrow> 'v ndarray
     \<Rightarrow> 'v event list \<times> (error + 'v ndarray option list)" where
  "lsqr rt A b =
     (if \<not> cusolver_enabled rt
      then ([], Inl (RuntimeError ''Current cupy only supports cusolver in CUDA 8.0''))
      else case as_csr rt A of
             (tr, Inl e) \<Rightarrow> (tr, Inl e)
           | (tr, Inr M) \<Rightarrow>
               (case assert_nd_squareness M of
                  Some e \<Rightarrow> (tr, Inl e)
                | None \<Rightarrow>
                    (case assert_cupy_array b of
                       Some e \<Rightarrow> (tr, Inl e)
                     | None \<Rightarrow>
                         (let m = fst (csr_shape M)
                          in case b_mismatch b m of
                               Inl e \<Rightarrow> (tr, Inl e)
                             | Inr True \<Rightarrow>
                                 (tr, Inl (ValueError
                                    ''b must be 1-d array whose size is same as A''))
                             | Inr False \<Rightarrow>
                                 (case select_dtype (csr_dtype M) of
                                    Inl e \<Rightarrow> (tr, Inl e)
                                  | Inr dt \<Rightarrow> dispatch rt tr M b m dt)))))"

subsection \<open>The same runtime with another singularity flag\<close>

text \<open>
  \<open>replace_flag s' rt\<close> is the runtime \<open>rt\<close> whose native routine writes the flag \<open>s'\<close> wherever
  that of \<open>rt\<close> writes a flag, and the same solution.
\<close>

definition replace_flag :: "int \<Rightarrow> 'v runtime \<Rightarrow> 'v runtime" where
  "replace_flag s' rt =
     rt\<lparr>csrlsvqr := (\<lambda>v a. case csrlsvqr rt v a of
                             Inl e \<Rightarrow> Inl e
                           | Inr (xs, s) \<Rightarrow> Inr (xs, s'))\<rparr>"

subsection \<open>A runtime and arguments to run the model on\<close>

text \<open>
  A runtime over the rationals, with exact arithmetic and the squared norm in place of
  the norm. Its native routine answers the solution \<open>xs\<close> and the flag \<open>s\<close> it is given.
  The matrix \<open>[[4, 1], [1, 3]]\<close> and the vector \<open>[1, 2]\<close> are the scenario of the spec, with
  the solution \<open>[1/11, 7/11]\<close>; \<open>singular_A\<close> is \<open>[[1, 1], [1, 1]]\<close>; \<open>int_A\<close> is the identity
  with 32-bit integer elements and \<open>complex_A\<close> the identity with complex64 elements;
  \<open>wide_A\<close> has two rows and three columns.
\<close>

definition demo_dot :: "rat csr \<Rightarrow> rat ndarray \<Rightarrow> rat ndarray" where
  "demo_dot M x =
     x\<lparr>nd_data :=
         map (\<lambda>i. sum_list (map (\<lambda>k. csr_data M ! k * nd_data x ! (csr_indices M ! k))
                              [csr_indptr M ! i ..< csr_indptr M ! Suc i]))
             [0 ..< fst (csr_shape M)]\<rparr>"

definition demo_subtract :: "rat ndarray \<Rightarrow> rat ndarray \<Rightarrow> rat ndarray" where
  "demo_subtract a c = a\<lparr>nd_data := map2 (\<lambda>p q. p - q) (nd_data a) (nd_data c)\<rparr>"

definition demo_norm :: "rat ndarray \<Rightarrow> rat ndarray" where
  "demo_norm a =
     \<lparr>nd_kind = CupyNdarray, nd_dtype = Float64, nd_shape = [],
      nd_data = [sum_list (map (\<lambda>p. p * p) (nd_data a))]\<rparr>"

definition demo_csr_matrix :: "rat ndarray \<Rightarrow> error + rat csr" where
  "demo_csr_matrix D =
     (case nd_shape D of
        [r, c] \<Rightarrow>
          Inr \<lparr>csr_shape = (r, c), csr_dtype = nd_dtype D, csr_nnz = length (nd_data D),
               csr_data = nd_data D,
               csr_indptr = map (\<lambda>i. i * c) [0 ..< Suc r],
               csr_indices = concat (replicate r [0 ..< c]), csr_descr = 0\<rparr>
      | _ \<Rightarrow> Inl (CollaboratorError 0))"

definition demo_runtime :: "bool \<Rightarrow> rat list \<Rightarrow> int \<Rightarrow> rat runtime" where
  "demo_runtime enabled xs s =
     \<lparr>cusolver_enabled = enabled, sparse_csr_matrix = demo_csr_matrix,
      get_cusolver_sp_handle = 7,
      csrlsvqr = (\<lambda>v a. Inr (xs, s)),
      cast_elem = (\<lambda>from to p. p), csr_dot = demo_dot, subtract = demo_subtract,
      linalg_norm = demo_norm\<rparr>"

definition demo_A :: "rat csr" where
  "demo_A =
     \<lparr>csr_shape = (2, 2), csr_dtype = Float32, csr_nnz = 4, csr_data = [4, 1, 1, 3],
      csr_indptr = [0, 2, 4], csr_indices = [0, 1, 0, 1], csr_descr = 0\<rparr>"

definition singular_A :: "rat csr" where
  "singular_A =
     \<lparr>csr_shape = (2, 2), csr_dtype = Float64, csr_nnz = 4, csr_data = [1, 1, 1, 1],
      csr_indptr = [0, 2, 4], csr_indices = [0, 1, 0, 1], csr_descr = 0\<rparr>"

definition int_A :: "rat csr" where
  "int_A =
     \<lparr>csr_shape = (2, 2), csr_dtype = Int32, csr_nnz = 2, csr_data = [1, 1],
      csr_indptr = [0, 1, 2], csr_indices = [0, 1], csr_descr = 0\<rparr>"

definition complex_A :: "rat csr" where
  "complex_A =
     \<lparr>csr_shape = (2, 2), csr_dtype = Complex64, csr_nnz = 2, csr_data = [1, 1],
      csr_indptr = [0, 1, 2], csr_indices = [0, 1], csr_descr = 0\<rparr>"

definition wide_A :: "rat csr" where
  "wide_A =
     \<lparr>csr_shape = (2, 3), csr_dtype = Float64, csr_nnz = 2, csr_data = [1, 1],
      csr_indptr = [0, 1, 2], csr_indices = [0, 1], csr_descr = 0\<rparr>"

definition vec :: "array_kind \<Rightarrow> nat list \<Rightarrow> rat list \<Rightarrow> rat ndarray" where
  "vec k shp xs = \<lparr>nd_kind = k, nd_dtype = Float64, nd_shape = shp, nd_data = xs\<rparr>"

definition demo_b :: "rat ndarray" where
  "demo_b = vec CupyNdarray [2] [1, 2]"

definition demo_x :: "rat ndarray" where
  "demo_x = vec CupyNdarray [2] [1 / 11, 7 / 11]"

definition demo_log :: "rat runtime \<Rightarrow> rat csr \<Rightarrow> rat ndarray \<Rightarrow> dtype \<Rightarrow> rat event list" where
  "demo_log rt M b dt =
     [GetHandle, AllocDevice 2 dt, AllocHost,
      NativeCall (select_variant dt) (native_arguments rt M b 2 dt),
      Astype Float64, SparseDot, Subtract, Norm, Norm]"

definition demo_tuple :: "rat csr \<Rightarrow> rat ndarray \<Rightarrow> rat ndarray \<Rightarrow> rat ndarray option list" where
  "demo_tuple M b x =
     [Some x, None, None, Some (demo_norm (demo_subtract b (demo_dot M x))),
      None, None, None, None, Some (demo_norm x), None]"

section \<open>Lemmas about the model\<close>

text \<open>
  For a boolean, integer or floating point element type up to double precision the
  working type is single or double precision.
\<close>

lemma select_dtype_real:
  "kind_of adt \<noteq> ComplexKind \<Longrightarrow> adt \<noteq> LongDouble \<Longrightarrow>
     select_dtype adt = Inr Float32 \<or> select_dtype adt = Inr Float64"
  by (cases adt) (simp_all add: select_dtype_def test_types_def)

lemma native_calls_append: "native_calls (xs @ ys) = native_calls xs @ native_calls ys"
  by (induction xs rule: native_calls.induct) simp_all

lemma as_csr_no_native: "as_csr rt A = (tr, r) \<Longrightarrow> native_calls tr = []"
  by (auto simp: as_csr_def split: matrix_arg.splits)

lemma native_calls_dispatch:
  "native_calls tr = [] \<Longrightarrow>
   native_calls (fst (dispatch rt tr M b m dt))
     = [(select_variant dt, native_arguments rt M b m dt)]"
  by (simp add: dispatch_def Let_def native_calls_append split: sum.splits prod.splits)

lemma shape_mismatch_iff:
  "(ndim b \<noteq> 1 \<or> len b \<noteq> Inr m) \<longleftrightarrow> nd_shape b \<noteq> [m]"
  by (cases "nd_shape b"; cases "tl (nd_shape b)") (auto simp: ndim_def len_def)

text \<open>
  The checks of lines 35 to 50 in their order, with the two helpers and the test of
  line 43 evaluated.
\<close>

lemma lsqr_outcome:
  "lsqr rt A b =
     (if \<not> cusolver_enabled rt
      then ([], Inl (RuntimeError ''Current cupy only supports cusolver in CUDA 8.0''))
      else case as_csr rt A of
             (tr, Inl e) \<Rightarrow> (tr, Inl e)
           | (tr, Inr M) \<Rightarrow>
               (if fst (csr_shape M) \<noteq> snd (csr_shape M) then (tr, Inl ShapeMismatchError)
                else if nd_kind b \<noteq> CupyNdarray then (tr, Inl ArrayTypeError)
                else if nd_shape b \<noteq> [fst (csr_shape M)]
                then (tr, Inl (ValueError ''b must be 1-d array whose size is same as A''))
                else (case select_dtype (csr_dtype M) of
                        Inl e \<Rightarrow> (tr, Inl e)
                      | Inr dt \<Rightarrow> dispatch rt tr M b (fst (csr_shape M)) dt)))"
  by (cases "nd_shape b"; cases "tl (nd_shape b)")
     (auto simp: lsqr_def assert_nd_squareness_def assert_cupy_array_def b_mismatch_def
        ndim_def len_def Let_def split: prod.splits sum.splits bool.splits)

lemma lsqr_accepted:
  assumes "cusolver_enabled rt" and "as_csr rt A = (tr, Inr M)"
    and "fst (csr_shape M) = snd (csr_shape M)" and "nd_kind b = CupyNdarray"
    and "nd_shape b = [fst (csr_shape M)]" and "select_dtype (csr_dtype M) = Inr dt"
  shows "lsqr rt A b = dispatch rt tr M b (fst (csr_shape M)) dt"
  using assms by (simp add: lsqr_outcome)

lemma lsqr_reaches_native:
  assumes "native_calls (fst (lsqr rt A b)) \<noteq> []"
  shows "\<exists>tr M dt. as_csr rt A = (tr, Inr M) \<and> select_dtype (csr_dtype M) = Inr dt \<and>
           lsqr rt A b = dispatch rt tr M b (fst (csr_shape M)) dt"
  using assms
  by (auto simp: lsqr_outcome as_csr_no_native split: if_splits prod.splits sum.splits)

lemma lsqr_success:
  assumes "lsqr rt A b = (tr, Inr ret)"
  shows "\<exists>tr0 M dt. as_csr rt A = (tr0, Inr M) \<and> select_dtype (csr_dtype M) = Inr dt \<and>
           lsqr rt A b = dispatch rt tr0 M b (fst (csr_shape M)) dt"
  using assms
  by (auto simp: lsqr_outcome split: if_splits prod.splits sum.splits)

lemma replace_flag_simps:
  "cusolver_enabled (replace_flag s' rt) = cusolver_enabled rt"
  "as_csr (replace_flag s' rt) A = as_csr rt A"
  "native_arguments (replace_flag s' rt) M b m dt = native_arguments rt M b m dt"
  "astype (replace_flag s' rt) a t = astype rt a t"
  "linalg_norm (replace_flag s' rt) = linalg_norm rt"
  "subtract (replace_flag s' rt) = subtract rt"
  "csr_dot (replace_flag s' rt) = csr_dot rt"
  "csrlsvqr (replace_flag s' rt) v args =
     (case csrlsvqr rt v args of Inl e \<Rightarrow> Inl e | Inr (xs, s) \<Rightarrow> Inr (xs, s'))"
  by (simp_all add: replace_flag_def as_csr_def native_arguments_def astype_def
      split: matrix_arg.splits)

lemma dispatch_replace_flag:
  "dispatch (replace_flag s' rt) tr M b m dt = dispatch rt tr M b m dt"
  by (simp add: dispatch_def replace_flag_simps Let_def split: sum.splits prod.splits)

lemma lsqr_replace_flag: "lsqr (replace_flag s' rt) A b = lsqr rt A b"
  by (simp add: lsqr_outcome replace_flag_simps dispatch_replace_flag
      cong: prod.case_cong sum.case_cong if_cong)

text \<open>The model run on the arguments of the previous section.\<close>

lemma demo_enabled: "cusolver_enabled (demo_runtime en xs s) = en"
  by (simp add: demo_runtime_def)

lemma demo_native: "csrlsvqr (demo_runtime en xs s) v args = Inr (xs, s)"
  by (simp add: demo_runtime_def)

lemma demo_handle: "get_cusolver_sp_handle (demo_runtime en xs s) = 7"
  by (simp add: demo_runtime_def)

lemma as_csr_CsrArg: "as_csr rt (CsrArg M) = ([], Inr M)"
  by (simp add: as_csr_def)

lemma demo_solve:
  "lsqr (demo_runtime True [1 / 11, 7 / 11] s) (CsrArg demo_A) demo_b =
     (demo_log (demo_runtime True [1 / 11, 7 / 11] s) demo_A demo_b Float32,
      Inr (demo_tuple demo_A demo_b demo_x))"
  by (simp add: lsqr_outcome as_csr_def demo_A_def demo_b_def vec_def select_dtype_def
      dispatch_def demo_runtime_def astype_def demo_x_def demo_log_def demo_tuple_def Let_def)

lemma singular_solve:
  "lsqr (demo_runtime True [1, 0] s) (CsrArg singular_A) (vec CupyNdarray [2] [1, 1]) =
     (demo_log (demo_runtime True [1, 0] s) singular_A (vec CupyNdarray [2] [1, 1]) Float64,
      Inr (demo_tuple singular_A (vec CupyNdarray [2] [1, 1]) (vec CupyNdarray [2] [1, 0])))"
  by (simp add: lsqr_outcome as_csr_def singular_A_def vec_def select_dtype_def
      dispatch_def demo_runtime_def astype_def demo_log_def demo_tuple_def Let_def)

lemma int_solve:
  "lsqr (demo_runtime True [1, 2] s) (CsrArg int_A) demo_b =
     (demo_log (demo_runtime True [1, 2] s) int_A demo_b Float64,
      Inr (demo_tuple int_A demo_b (vec CupyNdarray [2] [1, 2])))"
  by (simp add: lsqr_outcome as_csr_def int_A_def demo_b_def vec_def select_dtype_def
      test_types_def dispatch_def demo_runtime_def astype_def demo_log_def demo_tuple_def
      Let_def)

lemma complex_solve:
  "lsqr (demo_runtime True [1, 2] s) (CsrArg complex_A) demo_b =
     (demo_log (demo_runtime True [1, 2] s) complex_A demo_b Complex64,
      Inr (demo_tuple complex_A demo_b (vec CupyNdarray [2] [1, 2])))"
  by (simp add: lsqr_outcome as_csr_def complex_A_def demo_b_def vec_def select_dtype_def
      test_types_def dispatch_def demo_runtime_def astype_def demo_log_def demo_tuple_def
      Let_def)

text \<open>
  Lines 59 to 62 on the element types that are not complex and not extended precision:
  there the entry point called is the one of the working type.
\<close>

lemma lsqr_variant_real:
  assumes "as_csr rt A = (tr, Inr M)"
    and "kind_of (csr_dtype M) \<noteq> ComplexKind" and "csr_dtype M \<noteq> LongDouble"
    and "(v, args) \<in> set (native_calls (fst (lsqr rt A b)))"
  shows "select_dtype (csr_dtype M) = Inr (arg_x_dtype args) \<and>
         (v = Scsrlsvqr \<longleftrightarrow> arg_x_dtype args = Float32) \<and>
         (v = Dcsrlsvqr \<longleftrightarrow> arg_x_dtype args = Float64)"
proof -
  from assms(4) have "native_calls (fst (lsqr rt A b)) \<noteq> []" by auto
  from lsqr_reaches_native [OF this] assms(1) obtain dt
    where s: "select_dtype (csr_dtype M) = Inr dt"
      and l: "lsqr rt A b = dispatch rt tr M b (fst (csr_shape M)) dt" by auto
  from assms(1) have "native_calls tr = []" by (rule as_csr_no_native)
  with assms(4) l have va: "v = select_variant dt"
      "args = native_arguments rt M b (fst (csr_shape M)) dt"
    by (simp_all add: native_calls_dispatch)
  from s select_dtype_real [OF assms(2,3)] have "dt = Float32 \<or> dt = Float64" by auto
  with va s show ?thesis by (auto simp: native_arguments_def select_variant_def)
qed

text \<open>
  On every element type the single precision entry point is the one called exactly
  when the working type is single precision.
\<close>

lemma lsqr_variant_single:
  assumes "(v, args) \<in> set (native_calls (fst (lsqr rt A b)))"
  shows "v = Scsrlsvqr \<longleftrightarrow> arg_x_dtype args = Float32"
proof -
  from assms have "native_calls (fst (lsqr rt A b)) \<noteq> []" by auto
  from lsqr_reaches_native [OF this] obtain tr M dt
    where a: "as_csr rt A = (tr, Inr M)"
      and l: "lsqr rt A b = dispatch rt tr M b (fst (csr_shape M)) dt" by blast
  from a have "native_calls tr = []" by (rule as_csr_no_native)
  with assms l have "v = select_variant dt"
      "args = native_arguments rt M b (fst (csr_shape M)) dt"
    by (simp_all add: native_calls_dispatch)
  then show ?thesis by (cases dt) (simp_all add: native_arguments_def select_variant_def)
qed

section \<open>Properties\<close>

text \<open>
  C1, as amended. A successful call returns ten slots of which exactly three hold a
  value: slot 0 (the solution), slot 3 (the residual norm) and slot 8 (the solution
  norm); the other seven are \<open>None\<close>.
\<close>

theorem lsqr_tuple_slots:
  assumes "lsqr rt A b = (tr, Inr ret)"
  shows "length ret = 10 \<and>
         map (\<lambda>slot. slot = None) ret
           = [False, True, True, False, True, True, True, True, False, True] \<and>
         length (filter (\<lambda>slot. slot \<noteq> None) ret) = 3"
proof -
  from lsqr_success [OF assms] obtain tr0 M dt
    where "lsqr rt A b = dispatch rt tr0 M b (fst (csr_shape M)) dt" by blast
  with assms have "dispatch rt tr0 M b (fst (csr_shape M)) dt = (tr, Inr ret)" by simp
  then show ?thesis
    by (auto simp: dispatch_def Let_def split: sum.splits prod.splits)
qed

theorem lsqr_tuple_slots_witness:
  "lsqr (demo_runtime True [1 / 11, 7 / 11] (- 1)) (CsrArg demo_A) demo_b =
     (demo_log (demo_runtime True [1 / 11, 7 / 11] (- 1)) demo_A demo_b Float32,
      Inr (demo_tuple demo_A demo_b demo_x)) \<and>
   length (demo_tuple demo_A demo_b demo_x) = 10 \<and>
   map (\<lambda>slot. slot = None) (demo_tuple demo_A demo_b demo_x)
     = [False, True, True, False, True, True, True, True, False, True] \<and>
   length (filter (\<lambda>slot. slot \<noteq> None) (demo_tuple demo_A demo_b demo_x)) = 3"
proof -
  have h: "lsqr (demo_runtime True [1 / 11, 7 / 11] (- 1)) (CsrArg demo_A) demo_b =
     (demo_log (demo_runtime True [1 / 11, 7 / 11] (- 1)) demo_A demo_b Float32,
      Inr (demo_tuple demo_A demo_b demo_x))"
    by (rule demo_solve)
  from h lsqr_tuple_slots [OF h] show ?thesis by (rule conjI)
qed

text \<open>
  The claim as written counts four populated slots. On the scenario of the spec the
  call succeeds and the number of populated slots is not four.
\<close>

theorem lsqr_four_slots_counterexample:
  "\<exists>ret. snd (lsqr (demo_runtime True [1 / 11, 7 / 11] (- 1)) (CsrArg demo_A) demo_b) = Inr ret \<and>
         length (filter (\<lambda>slot. slot \<noteq> None) ret) \<noteq> 4"
  by (simp add: demo_solve demo_tuple_def)

text \<open>
  C2. Where the native capability is absent, \<open>lsqr\<close> raises the runtime error of line 36
  for every \<open>A\<close> and \<open>b\<close>, and the log of collaborator calls is empty: no conversion, no
  handle, no allocation and no native call was made.
\<close>

theorem lsqr_unsupported:
  "\<not> cusolver_enabled rt \<Longrightarrow>
     lsqr rt A b = ([], Inl (RuntimeError ''Current cupy only supports cusolver in CUDA 8.0''))"
  by (simp add: lsqr_def)

theorem lsqr_unsupported_witness:
  "\<not> cusolver_enabled (demo_runtime False [] 0) \<and>
   lsqr (demo_runtime False [] 0) (CsrArg wide_A) (vec NumpyNdarray [2, 2] [1, 2, 3, 4])
     = ([], Inl (RuntimeError ''Current cupy only supports cusolver in CUDA 8.0''))"
proof -
  have h: "\<not> cusolver_enabled (demo_runtime False [] 0)" by (simp add: demo_enabled)
  from h lsqr_unsupported [OF h] show ?thesis by (rule conjI)
qed

text \<open>
  C3, as amended. Where the capability is present, \<open>A\<close> is (or converts to) a square csr
  matrix with \<open>m\<close> rows and \<open>b\<close> is a cupy array, every \<open>b\<close> that is not one-dimensional or
  whose length is not \<open>m\<close> makes \<open>lsqr\<close> raise the value error of line 44, whose message is
  the fixed text of the source, and no native call is made.
\<close>

theorem lsqr_b_mismatch:
  assumes "cusolver_enabled rt" and "as_csr rt A = (tr, Inr M)"
    and "fst (csr_shape M) = snd (csr_shape M)" and "nd_kind b = CupyNdarray"
    and "ndim b \<noteq> 1 \<or> len b \<noteq> Inr (fst (csr_shape M))"
  shows "lsqr rt A b = (tr, Inl (ValueError ''b must be 1-d array whose size is same as A'')) \<and>
         native_calls (fst (lsqr rt A b)) = []"
proof -
  from assms(5) have "nd_shape b \<noteq> [fst (csr_shape M)]"
    using shape_mismatch_iff [of b "fst (csr_shape M)"] by blast
  with assms(1-4) have "lsqr rt A b = (tr, Inl (ValueError ''b must be 1-d array whose size is same as A''))"
    by (simp add: lsqr_outcome)
  with as_csr_no_native [OF assms(2)] show ?thesis by simp
qed

theorem lsqr_b_mismatch_witness:
  "lsqr (demo_runtime True [] 0) (CsrArg demo_A) (vec CupyNdarray [3] [1, 2, 3])
     = ([], Inl (ValueError ''b must be 1-d array whose size is same as A'')) \<and>
   native_calls (fst (lsqr (demo_runtime True [] 0) (CsrArg demo_A)
                        (vec CupyNdarray [3] [1, 2, 3]))) = []"
proof -
  have 1: "cusolver_enabled (demo_runtime True [] 0)" by (simp add: demo_enabled)
  have 2: "as_csr (demo_runtime True [] 0) (CsrArg demo_A) = ([], Inr demo_A)"
    by (rule as_csr_CsrArg)
  have 3: "fst (csr_shape demo_A) = snd (csr_shape demo_A)" by (simp add: demo_A_def)
  have 4: "nd_kind (vec CupyNdarray [3] [1, 2, 3]) = CupyNdarray" by (simp add: vec_def)
  have 5: "ndim (vec CupyNdarray [3] [1, 2, 3]) \<noteq> 1 \<or>
           len (vec CupyNdarray [3] [1, 2, 3]) \<noteq> Inr (fst (csr_shape demo_A))"
    by (simp add: vec_def len_def demo_A_def)
  from lsqr_b_mismatch [OF 1 2 3 4 5] show ?thesis .
qed

text \<open>
  The claim as written promises the value error for every such \<open>b\<close>. With the capability
  absent a two-dimensional \<open>b\<close> gets the runtime error of line 36 instead.
\<close>

theorem lsqr_b_mismatch_counterexample:
  "ndim (vec CupyNdarray [2, 2] [1, 2, 3, 4]) \<noteq> 1 \<and>
   snd (lsqr (demo_runtime False [] 0) (CsrArg demo_A) (vec CupyNdarray [2, 2] [1, 2, 3, 4]))
     = Inl (RuntimeError ''Current cupy only supports cusolver in CUDA 8.0'') \<and>
   snd (lsqr (demo_runtime False [] 0) (CsrArg demo_A) (vec CupyNdarray [2, 2] [1, 2, 3, 4]))
     \<noteq> Inl (ValueError ''b must be 1-d array whose size is same as A'')"
  by (simp add: lsqr_def demo_enabled ndim_def vec_def)

text \<open>
  C4. The working element type is that of \<open>A\<close> where it is single or double precision,
  and otherwise numpy's common type \<open>t\<close> of it and single precision, which always exists.
  In both cases its numbers have at least 32 bits, and it is a floating point type, or
  a complex floating point type where \<open>A\<close> is complex: never a boolean, an integer or the
  half precision type.
\<close>

theorem select_dtype_precision:
  "\<exists>t dt. find_common_type [adt, Float32] = Some t \<and>
          select_dtype adt = Inr dt \<and>
          dt = (if adt = Float32 \<or> adt = Float64 then adt else t) \<and>
          kind_of dt = (if kind_of adt = ComplexKind then ComplexKind else FloatKind) \<and>
          32 \<le> bits dt"
  by (cases adt) (simp_all add: select_dtype_def test_types_def)

text \<open>
  C5. The claim fails on a matrix of complex64 elements: line 50 keeps complex64 as the
  working type, the test of line 59 is false, and the double precision entry point is
  called with an output buffer of complex64 elements, although the working type is
  not double precision.
\<close>

theorem lsqr_complex_calls_double:
  "select_dtype (csr_dtype complex_A) = Inr Complex64 \<and>
   native_calls (fst (lsqr (demo_runtime True [1, 2] 0) (CsrArg complex_A) demo_b))
     = [(Dcsrlsvqr, native_arguments (demo_runtime True [1, 2] 0) complex_A demo_b 2 Complex64)] \<and>
   arg_x_dtype (native_arguments (demo_runtime True [1, 2] 0) complex_A demo_b 2 Complex64)
     \<noteq> Float64"
proof -
  have 1: "select_dtype (csr_dtype complex_A) = Inr Complex64"
    by (simp add: complex_A_def select_dtype_def test_types_def)
  have 2: "native_calls (fst (lsqr (demo_runtime True [1, 2] 0) (CsrArg complex_A) demo_b))
     = [(Dcsrlsvqr, native_arguments (demo_runtime True [1, 2] 0) complex_A demo_b 2 Complex64)]"
    by (simp add: complex_solve demo_log_def select_variant_def)
  have 3: "arg_x_dtype (native_arguments (demo_runtime True [1, 2] 0) complex_A demo_b 2
             Complex64) \<noteq> Float64"
    by (simp add: native_arguments_def)
  from 1 2 3 show ?thesis by (intro conjI)
qed

text \<open>
  C6. Every native call \<open>lsqr\<close> makes has the tolerance argument 1.0 and the reordering
  argument 1, whatever \<open>A\<close>, \<open>b\<close> and the runtime are.
\<close>

theorem lsqr_native_tolerance:
  assumes "(v, args) \<in> set (native_calls (fst (lsqr rt A b)))"
  shows "arg_tol args = 1 \<and> arg_reorder args = 1"
proof -
  from assms have "native_calls (fst (lsqr rt A b)) \<noteq> []" by auto
  from lsqr_reaches_native [OF this] obtain tr M dt
    where a: "as_csr rt A = (tr, Inr M)"
      and l: "lsqr rt A b = dispatch rt tr M b (fst (csr_shape M)) dt" by blast
  from a have "native_calls tr = []" by (rule as_csr_no_native)
  with assms l have "args = native_arguments rt M b (fst (csr_shape M)) dt"
    by (simp add: native_calls_dispatch)
  then show ?thesis by (simp add: native_arguments_def)
qed

theorem lsqr_native_tolerance_witness:
  "(Scsrlsvqr, native_arguments (demo_runtime True [1 / 11, 7 / 11] 0) demo_A demo_b 2 Float32)
     \<in> set (native_calls (fst (lsqr (demo_runtime True [1 / 11, 7 / 11] 0)
                                  (CsrArg demo_A) demo_b))) \<and>
   arg_tol (native_arguments (demo_runtime True [1 / 11, 7 / 11] 0) demo_A demo_b 2 Float32) = 1 \<and>
   arg_reorder (native_arguments (demo_runtime True [1 / 11, 7 / 11] 0) demo_A demo_b 2 Float32)
     = 1"
proof -
  have h: "(Scsrlsvqr,
            native_arguments (demo_runtime True [1 / 11, 7 / 11] 0) demo_A demo_b 2 Float32)
     \<in> set (native_calls (fst (lsqr (demo_runtime True [1 / 11, 7 / 11] 0)
                                  (CsrArg demo_A) demo_b)))"
    by (simp add: demo_solve demo_log_def select_variant_def)
  from h lsqr_native_tolerance [OF h] show ?thesis by (rule conjI)
qed

text \<open>
  C7. On success the native routine has written a solution \<open>xs\<close> into the buffer of
  the working element type \<open>dt\<close>; slot 0 of the result is that buffer converted to double
  precision, whatever \<open>dt\<close> was; slot 3 is the norm of \<open>b\<close> minus the product of the csr
  matrix with that converted solution; slot 8 is the norm of the converted solution.
\<close>

theorem lsqr_postprocessing:
  assumes "lsqr rt A b = (tr, Inr ret)"
  shows "\<exists>tr0 M dt xs s x.
           as_csr rt A = (tr0, Inr M) \<and> select_dtype (csr_dtype M) = Inr dt \<and>
           csrlsvqr rt (select_variant dt) (native_arguments rt M b (fst (csr_shape M)) dt)
             = Inr (xs, s) \<and>
           x = astype rt \<lparr>nd_kind = CupyNdarray, nd_dtype = dt,
                           nd_shape = [fst (csr_shape M)], nd_data = xs\<rparr> Float64 \<and>
           nd_dtype x = Float64 \<and>
           ret ! 0 = Some x \<and>
           ret ! 3 = Some (linalg_norm rt (subtract rt b (csr_dot rt M x))) \<and>
           ret ! 8 = Some (linalg_norm rt x)"
proof -
  from lsqr_success [OF assms] obtain tr0 M dt
    where a: "as_csr rt A = (tr0, Inr M)" and s: "select_dtype (csr_dtype M) = Inr dt"
      and l: "lsqr rt A b = dispatch rt tr0 M b (fst (csr_shape M)) dt" by blast
  from l assms have d: "dispatch rt tr0 M b (fst (csr_shape M)) dt = (tr, Inr ret)" by simp
  then obtain xs s where n: "csrlsvqr rt (select_variant dt)
      (native_arguments rt M b (fst (csr_shape M)) dt) = Inr (xs, s)"
    by (auto simp: dispatch_def Let_def split: sum.splits prod.splits)
  with d have "ret = (let x = astype rt \<lparr>nd_kind = CupyNdarray, nd_dtype = dt,
                           nd_shape = [fst (csr_shape M)], nd_data = xs\<rparr> Float64
      in [Some x, None, None, Some (linalg_norm rt (subtract rt b (csr_dot rt M x))),
          None, None, None, None, Some (linalg_norm rt x), None])"
    by (auto simp: dispatch_def Let_def)
  with a s n show ?thesis by (simp add: Let_def astype_def)
qed

text \<open>
  The witness is the scenario of the spec, solved in single precision: the solution
  comes back in double precision, with the two norms computed from it.
\<close>

theorem lsqr_postprocessing_witness:
  "lsqr (demo_runtime True [1 / 11, 7 / 11] 0) (CsrArg demo_A) demo_b =
     (demo_log (demo_runtime True [1 / 11, 7 / 11] 0) demo_A demo_b Float32,
      Inr (demo_tuple demo_A demo_b demo_x)) \<and>
   csr_dtype demo_A = Float32 \<and> nd_dtype demo_x = Float64 \<and>
   demo_tuple demo_A demo_b demo_x ! 0 = Some demo_x \<and>
   demo_tuple demo_A demo_b demo_x ! 3
     = Some (demo_norm (demo_subtract demo_b (demo_dot demo_A demo_x))) \<and>
   demo_tuple demo_A demo_b demo_x ! 8 = Some (demo_norm demo_x)"
proof -
  have h: "lsqr (demo_runtime True [1 / 11, 7 / 11] 0) (CsrArg demo_A) demo_b =
     (demo_log (demo_runtime True [1 / 11, 7 / 11] 0) demo_A demo_b Float32,
      Inr (demo_tuple demo_A demo_b demo_x))"
    by (rule demo_solve)
  from lsqr_postprocessing [OF h] obtain x where
    "nd_dtype x = Float64" and "demo_tuple demo_A demo_b demo_x ! 0 = Some x"
    and "demo_tuple demo_A demo_b demo_x ! 3
      = Some (linalg_norm (demo_runtime True [1 / 11, 7 / 11] 0)
          (subtract (demo_runtime True [1 / 11, 7 / 11] 0) demo_b
             (csr_dot (demo_runtime True [1 / 11, 7 / 11] 0) demo_A x)))"
    and "demo_tuple demo_A demo_b demo_x ! 8
      = Some (linalg_norm (demo_runtime True [1 / 11, 7 / 11] 0) x)"
    by (auto simp: as_csr_def)
  with h show ?thesis by (simp add: demo_tuple_def demo_runtime_def demo_A_def)
qed

text \<open>
  C8, as amended. Where the capability is present and \<open>A\<close> is (or converts to) a csr
  matrix whose two dimensions differ, \<open>lsqr\<close> raises the shape-mismatch error, and no
  native call is made.
\<close>

theorem lsqr_not_square:
  assumes "cusolver_enabled rt" and "as_csr rt A = (tr, Inr M)"
    and "fst (csr_shape M) \<noteq> snd (csr_shape M)"
  shows "lsqr rt A b = (tr, Inl ShapeMismatchError) \<and> native_calls (fst (lsqr rt A b)) = []"
proof -
  from assms have "lsqr rt A b = (tr, Inl ShapeMismatchError)" by (simp add: lsqr_outcome)
  with as_csr_no_native [OF assms(2)] show ?thesis by simp
qed

theorem lsqr_not_square_witness:
  "lsqr (demo_runtime True [] 0) (CsrArg wide_A) demo_b = ([], Inl ShapeMismatchError) \<and>
   native_calls (fst (lsqr (demo_runtime True [] 0) (CsrArg wide_A) demo_b)) = []"
proof -
  have 1: "cusolver_enabled (demo_runtime True [] 0)" by (simp add: demo_enabled)
  have 2: "as_csr (demo_runtime True [] 0) (CsrArg wide_A) = ([], Inr wide_A)"
    by (rule as_csr_CsrArg)
  have 3: "fst (csr_shape wide_A) \<noteq> snd (csr_shape wide_A)" by (simp add: wide_A_def)
  from lsqr_not_square [OF 1 2 3] show ?thesis .
qed

text \<open>
  The claim as written promises the shape-mismatch error for every matrix that is not
  square. With the capability absent such a matrix gets the runtime error of line 36.
\<close>

theorem lsqr_not_square_counterexample:
  "fst (csr_shape wide_A) \<noteq> snd (csr_shape wide_A) \<and>
   snd (lsqr (demo_runtime False [] 0) (CsrArg wide_A) demo_b) = Inl (RuntimeError ''Current cupy only supports cusolver in CUDA 8.0'') \<and>
   snd (lsqr (demo_runtime False [] 0) (CsrArg wide_A) demo_b) \<noteq> Inl ShapeMismatchError"
  by (simp add: lsqr_def demo_enabled wide_A_def)

text \<open>
  C9, as amended. Where the arguments are accepted (the matrix of the claim,
  \<open>[[1, 1], [1, 1]]\<close>, with a compatible \<open>b\<close> included) and the native call succeeds, \<open>lsqr\<close>
  returns a result whatever flag \<open>s\<close> the native routine writes, and the flag is not read:
  with any other flag \<open>s'\<close> in its place the result and the calls made are the same.
\<close>

theorem lsqr_singular_flag_unread:
  assumes "cusolver_enabled rt" and "as_csr rt A = (tr, Inr M)"
    and "fst (csr_shape M) = snd (csr_shape M)" and "nd_kind b = CupyNdarray"
    and "nd_shape b = [fst (csr_shape M)]" and "select_dtype (csr_dtype M) = Inr dt"
    and "csrlsvqr rt (select_variant dt) (native_arguments rt M b (fst (csr_shape M)) dt)
           = Inr (xs, s)"
  shows "(\<exists>ret. snd (lsqr rt A b) = Inr ret) \<and> lsqr (replace_flag s' rt) A b = lsqr rt A b"
proof -
  from assms(1-6) have "lsqr rt A b = dispatch rt tr M b (fst (csr_shape M)) dt"
    by (rule lsqr_accepted)
  with assms(7) have "\<exists>ret. snd (lsqr rt A b) = Inr ret"
    by (simp add: dispatch_def Let_def)
  then show ?thesis by (simp add: lsqr_replace_flag)
qed

theorem lsqr_singular_flag_unread_witness:
  "(\<exists>ret. snd (lsqr (demo_runtime True [1, 0] 1) (CsrArg singular_A)
                 (vec CupyNdarray [2] [1, 1])) = Inr ret) \<and>
   lsqr (replace_flag (- 1) (demo_runtime True [1, 0] 1)) (CsrArg singular_A)
        (vec CupyNdarray [2] [1, 1])
     = lsqr (demo_runtime True [1, 0] 1) (CsrArg singular_A) (vec CupyNdarray [2] [1, 1])"
proof -
  have 1: "cusolver_enabled (demo_runtime True [1, 0] 1)" by (simp add: demo_enabled)
  have 2: "as_csr (demo_runtime True [1, 0] 1) (CsrArg singular_A) = ([], Inr singular_A)"
    by (rule as_csr_CsrArg)
  have 3: "fst (csr_shape singular_A) = snd (csr_shape singular_A)"
    by (simp add: singular_A_def)
  have 4: "nd_kind (vec CupyNdarray [2] [1, 1]) = CupyNdarray" by (simp add: vec_def)
  have 5: "nd_shape (vec CupyNdarray [2] [1, 1]) = [fst (csr_shape singular_A)]"
    by (simp add: vec_def singular_A_def)
  have 6: "select_dtype (csr_dtype singular_A) = Inr Float64"
    by (simp add: singular_A_def select_dtype_def)
  have 7: "csrlsvqr (demo_runtime True [1, 0] 1) (select_variant Float64)
             (native_arguments (demo_runtime True [1, 0] 1) singular_A
                (vec CupyNdarray [2] [1, 1]) (fst (csr_shape singular_A)) Float64)
           = Inr ([1, 0], 1)"
    by (rule demo_native)
  from lsqr_singular_flag_unread [OF 1 2 3 4 5 6 7] show ?thesis .
qed

text \<open>
  The claim as written says that the flag can be observed in the result. Two runs on
  the singular matrix whose native routine writes the same solution and the flags 1
  (singular) and -1 (not singular) return the same result and make the same calls.
\<close>

theorem lsqr_singularity_counterexample:
  "csrlsvqr (demo_runtime True [1, 0] 1) Dcsrlsvqr
     (native_arguments (demo_runtime True [1, 0] 1) singular_A (vec CupyNdarray [2] [1, 1]) 2
        Float64) = Inr ([1, 0], 1) \<and>
   csrlsvqr (demo_runtime True [1, 0] (- 1)) Dcsrlsvqr
     (native_arguments (demo_runtime True [1, 0] (- 1)) singular_A (vec CupyNdarray [2] [1, 1]) 2
        Float64) = Inr ([1, 0], - 1) \<and>
   snd (lsqr (demo_runtime True [1, 0] 1) (CsrArg singular_A) (vec CupyNdarray [2] [1, 1]))
     = snd (lsqr (demo_runtime True [1, 0] (- 1)) (CsrArg singular_A)
              (vec CupyNdarray [2] [1, 1])) \<and>
   native_calls (fst (lsqr (demo_runtime True [1, 0] 1) (CsrArg singular_A)
                        (vec CupyNdarray [2] [1, 1])))
     = native_calls (fst (lsqr (demo_runtime True [1, 0] (- 1)) (CsrArg singular_A)
                             (vec CupyNdarray [2] [1, 1])))"
  by (simp add: singular_solve demo_native demo_log_def native_arguments_def demo_handle)

text \<open>
  C10. A \<open>b\<close> that is not a cupy array is rejected, whatever its shape: \<open>lsqr\<close> raises, the
  exception is that of the first failing check among the capability, the conversion,
  the squareness and the array check, so the length check of line 43 is not reached,
  and no native call is made.
\<close>

theorem lsqr_rejects_host_array:
  assumes "nd_kind b \<noteq> CupyNdarray"
  shows "(\<exists>e. snd (lsqr rt A b) = Inl e) \<and>
         snd (lsqr rt A b) =
           (if \<not> cusolver_enabled rt
            then Inl (RuntimeError ''Current cupy only supports cusolver in CUDA 8.0'')
            else case snd (as_csr rt A) of
                   Inl e \<Rightarrow> Inl e
                 | Inr M \<Rightarrow> (case assert_nd_squareness M of
                                Some e \<Rightarrow> Inl e
                              | None \<Rightarrow> Inl ArrayTypeError)) \<and>
         native_calls (fst (lsqr rt A b)) = []"
proof (cases "as_csr rt A")
  case (Pair tr r)
  from Pair have "native_calls tr = []" by (rule as_csr_no_native)
  with Pair assms show ?thesis
    by (cases r) (auto simp: lsqr_outcome assert_nd_squareness_def)
qed

text \<open>
  The witness is a numpy array with one dimension and the length of \<open>A\<close>'s rows.
\<close>

theorem lsqr_rejects_host_array_witness:
  "nd_kind (vec NumpyNdarray [2] [1, 2]) \<noteq> CupyNdarray \<and>
   nd_shape (vec NumpyNdarray [2] [1, 2]) = [fst (csr_shape demo_A)] \<and>
   snd (lsqr (demo_runtime True [1 / 11, 7 / 11] 0) (CsrArg demo_A)
          (vec NumpyNdarray [2] [1, 2])) = Inl ArrayTypeError \<and>
   native_calls (fst (lsqr (demo_runtime True [1 / 11, 7 / 11] 0) (CsrArg demo_A)
                        (vec NumpyNdarray [2] [1, 2]))) = []"
proof -
  have h: "nd_kind (vec NumpyNdarray [2] [1, 2]) \<noteq> CupyNdarray" by (simp add: vec_def)
  from lsqr_rejects_host_array [OF h, of "demo_runtime True [1 / 11, 7 / 11] 0" "CsrArg demo_A"]
  have "snd (lsqr (demo_runtime True [1 / 11, 7 / 11] 0) (CsrArg demo_A)
          (vec NumpyNdarray [2] [1, 2])) = Inl ArrayTypeError \<and>
        native_calls (fst (lsqr (demo_runtime True [1 / 11, 7 / 11] 0) (CsrArg demo_A)
                        (vec NumpyNdarray [2] [1, 2]))) = []"
    by (simp add: demo_enabled as_csr_CsrArg assert_nd_squareness_def demo_A_def)
  with h show ?thesis by (simp add: vec_def demo_A_def)
qed

end
